theory Spec2Isabelle
  imports Main
begin

section \<open>pgsignals.utils: module constants and event kinds\<close>

text \<open>
  The module reads three settings at import time (\<^verbatim>\<open>PGSIGNALS_PREFIX\<close>,
  \<^verbatim>\<open>PGSIGNALS_DEFAULT_SCHEMA\<close>, \<^verbatim>\<open>PGSIGNALS_DEFAULT_DATABASE\<close>) and computes
  \<^verbatim>\<open>is_info = log.isEnabledFor(logging.INFO)\<close> once. They are constants of the
  process, so every function of the model takes them as one record.
\<close>

record settings =
  PREFIX :: string
  DEFAULT_SCHEMA :: string
  DEFAULT_DATABASE :: string
  is_info :: bool

text \<open>\<^verbatim>\<open>class EventKind(enum.Enum)\<close> with its four properties.\<close>

datatype EventKind = INSERT | UPDATE | DELETE

definition is_create :: "EventKind \<Rightarrow> bool" where
  "is_create k = (k = INSERT)"

definition is_update :: "EventKind \<Rightarrow> bool" where
  "is_update k = (k = UPDATE)"

definition is_save :: "EventKind \<Rightarrow> bool" where
  "is_save k = (is_create k \<or> is_update k)"

definition is_delete :: "EventKind \<Rightarrow> bool" where
  "is_delete k = (k = DELETE)"

text \<open>\<^verbatim>\<open>ev.value\<close> and \<^verbatim>\<open>ev.name\<close>: the member's string, the same for both.\<close>

fun kind_value :: "EventKind \<Rightarrow> string" where
  "kind_value INSERT = ''INSERT''"
| "kind_value UPDATE = ''UPDATE''"
| "kind_value DELETE = ''DELETE''"

definition kind_name :: "EventKind \<Rightarrow> string" where
  "kind_name k = kind_value k"

definition ALL_EVENTS :: "EventKind list" where
  "ALL_EVENTS = [INSERT, UPDATE, DELETE]"

section \<open>Values, errors, log records\<close>

text \<open>
  What \<^verbatim>\<open>json.loads\<close> returns: \<^verbatim>\<open>None\<close>, a bool, an integer, a string, a list or a
  dict with string keys. A dict is an association list read with \<open>map_of\<close>
  (\<^verbatim>\<open>json.loads\<close> never returns a repeated key). Floats are left out: no function of
  the module computes with a number of the payload.
\<close>

datatype json =
    JNull
  | JBool bool
  | JNum int
  | JStr string
  | JArr "json list"
  | JObj "(string \<times> json) list"

text \<open>The exceptions that leave a function of the module.\<close>

datatype error =
    NameError string
  | KeyError string
  | TypeError
  | ValueError
  | RecursionError
  | ConnectionDoesNotExist string
  | ProgrammingError

text \<open>
  A notification is represented by what the standard library's \<^verbatim>\<open>json.loads\<close> makes
  of \<^verbatim>\<open>notify.payload\<close>: it raises \<^verbatim>\<open>JSONDecodeError\<close>, or it raises another
  exception (\<open>OtherError\<close>: a plain \<^verbatim>\<open>ValueError\<close> for an integer literal over the digit
  limit of Python 3.11, \<^verbatim>\<open>RecursionError\<close> for a payload nested too deep), or it
  returns a value.
\<close>

datatype notify = JSONDecodeError | OtherError error | Loaded json

datatype level = ERROR | INFO

text \<open>One constructor for each logging call of the module, with the values it formats.\<close>

datatype message =
    DecodeFailure
  | CannotFoundModel json
  | EmitSignal json string "string option"
  | StartListen string "string list"
  | MuteTable string
  | CreateBaseTrigger

section \<open>The database, as the module's SQL sees it\<close>

text \<open>
  The SQL text the module sends, one constructor for each template with the values
  \<^verbatim>\<open>str.format\<close> puts into it. \<open>LISTEN p\<close> is \<^verbatim>\<open>LISTEN {p}__events;\<close>. The
  \<^verbatim>\<open>operations\<close> of \<^verbatim>\<open>CREATE_TRIGGER\<close>, in the source
  \<^verbatim>\<open>' OR '.join(ev.value for ev in events)\<close>, is kept as the list that is joined.
\<close>

datatype sql =
    LISTEN string
  | CREATE_STAGING_TABLE string string
  | CREATE_EMIT_FUNC string string
  | DROP_TRIGGER string string string
  | CREATE_TRIGGER string string string "EventKind list"

text \<open>Argument order of the constructors: prefix, schema, table (then the events).\<close>

record trigger =
  tg_name :: string
  tg_schema :: string
  tg_table :: string
  tg_events :: "EventKind list"

record database =
  schemas :: "string list"
  relations :: "(string \<times> string) list"
  routines :: "(string \<times> string) list"
  triggers :: "trigger list"

text \<open>
  The module writes prefix, schema and table into the statement text as they are
  (\<^verbatim>\<open>str.format\<close>, nothing escaped), so what PostgreSQL reads depends on the characters
  of the names. A \<open>char\<close> is a byte of the text.
  \<^item> PostgreSQL cuts an identifier to 63 bytes (\<open>ident\<close>).
  \<^item> Between double quotes, as in \<^verbatim>\<open>"{schema}"\<close> or \<^verbatim>\<open>"{prefix}__{table}"\<close>, a name
    must not be empty and must hold no double quote and no NUL (\<open>quotable\<close>): an
    empty name is a zero-length identifier, and a double quote ends the identifier
    before the name does, which leaves text that is no statement.
  \<^item> Without quotes, as in \<^verbatim>\<open>LISTEN {prefix}__events\<close>, the name must start with a letter
    or an underscore and go on with letters, digits, underscores and dollar signs
    (\<open>unquoted_ident\<close>); bytes from 128 on count as letters.
  \<^item> In \<^verbatim>\<open>CREATE_EMIT_FUNC\<close> the names also stand inside the function body, between
    \<^verbatim>\<open>$$\<close> and \<^verbatim>\<open>$$\<close>, and the prefix inside the string \<^verbatim>\<open>'{prefix}__events'\<close>: two
    dollar signs in a row end the body, and a single quote in the prefix ends the string.
\<close>

definition dquote :: char where
  "dquote = CHR 0x22"

definition squote :: char where
  "squote = CHR 0x27"

definition dollar :: char where
  "dollar = CHR 0x24"

definition nul :: char where
  "nul = CHR 0x00"

definition ident :: "string \<Rightarrow> string" where
  "ident s = take 63 s"

definition quotable :: "string \<Rightarrow> bool" where
  "quotable s = (s \<noteq> [] \<and> dquote \<notin> set s \<and> nul \<notin> set s)"

definition ident_start :: "char \<Rightarrow> bool" where
  "ident_start c =
     (let n = (of_char c :: nat)
      in (65 \<le> n \<and> n \<le> 90) \<or> (97 \<le> n \<and> n \<le> 122) \<or> n = 95 \<or> 128 \<le> n)"

definition ident_cont :: "char \<Rightarrow> bool" where
  "ident_cont c =
     (let n = (of_char c :: nat)
      in ident_start c \<or> (48 \<le> n \<and> n \<le> 57) \<or> n = 36)"

fun unquoted_ident :: "string \<Rightarrow> bool" where
  "unquoted_ident [] = False"
| "unquoted_ident (c # cs) = (ident_start c \<and> list_all ident_cont cs)"

fun dollar_dollar :: "string \<Rightarrow> bool" where
  "dollar_dollar (a # b # cs) = ((a = dollar \<and> b = dollar) \<or> dollar_dollar (b # cs))"
| "dollar_dollar cs = False"

definition trigger_name :: "string \<Rightarrow> string \<Rightarrow> string" where
  "trigger_name prefix table_name = ident (prefix @ ''__'' @ table_name)"

definition emit_func_name :: "string \<Rightarrow> string" where
  "emit_func_name prefix = ident (prefix @ ''__emit_event'')"

definition staging_table_name :: "string \<Rightarrow> string" where
  "staging_table_name prefix = ident (prefix @ ''__events'')"

text \<open>The names of \<^verbatim>\<open>DROP_TRIGGER\<close> and \<^verbatim>\<open>CREATE_TRIGGER\<close>:
  \<^verbatim>\<open>"{prefix}__{table}"\<close> and \<^verbatim>\<open>"{schema}"."{table}"\<close>; the second also writes
  \<^verbatim>\<open>"{schema}"."{prefix}__emit_event"\<close>, which fits when the first two do.\<close>

definition trigger_text_ok :: "string \<Rightarrow> string \<Rightarrow> string \<Rightarrow> bool" where
  "trigger_text_ok prefix schema table_name =
     (quotable (prefix @ ''__'' @ table_name) \<and> quotable schema \<and> quotable table_name)"

text \<open>The names of \<^verbatim>\<open>CREATE_EMIT_FUNC\<close>: \<^verbatim>\<open>"{schema}"."{prefix}__emit_event"\<close>, and in the
  body \<^verbatim>\<open>"{schema}"."{prefix}__events"\<close> and \<^verbatim>\<open>'{prefix}__events'\<close>.\<close>

definition func_text_ok :: "string \<Rightarrow> string \<Rightarrow> bool" where
  "func_text_ok prefix schema =
     (quotable schema \<and> quotable (prefix @ ''__emit_event'') \<and> quotable (prefix @ ''__events'')
      \<and> squote \<notin> set prefix
      \<and> \<not> dollar_dollar schema \<and> \<not> dollar_dollar prefix)"

definition is_trigger :: "string \<Rightarrow> string \<Rightarrow> string \<Rightarrow> trigger \<Rightarrow> bool" where
  "is_trigger prefix schema table_name t =
     (tg_name t = trigger_name prefix table_name \<and> tg_schema t = ident schema
      \<and> tg_table t = ident table_name)"

text \<open>
  PostgreSQL's answer to each statement, as far as the module depends on it. A statement
  whose names do not fit its text is rejected; a name is taken for a name, never for
  SQL written to go on after a closing quote.
  \<^item> \<^verbatim>\<open>LISTEN\<close> changes no object of the database.
  \<^item> \<^verbatim>\<open>CREATE_STAGING_TABLE\<close> as the module writes it
    (\<^verbatim>\<open>CREATE TABLE "s"."p__events" IF NOT EXISTS (...)\<close>) is not PostgreSQL's syntax,
    which wants \<^verbatim>\<open>IF NOT EXISTS\<close> before the name; it is rejected.
  \<^item> \<^verbatim>\<open>CREATE OR REPLACE FUNCTION\<close> needs the schema; the function body is checked for
    its syntax, not against the tables, when the function is created.
  \<^item> \<^verbatim>\<open>DROP TRIGGER IF EXISTS\<close> removes the trigger of that name on that table, and
    succeeds when there is none.
  \<^item> \<^verbatim>\<open>CREATE TRIGGER\<close> needs the table and the function, no trigger of that name on
    the table, and a non-empty list of distinct events.
\<close>

fun exec_sql :: "sql \<Rightarrow> database \<Rightarrow> error + database" where
  "exec_sql (LISTEN prefix) d =
     (if unquoted_ident (prefix @ ''__events'') then Inr d else Inl ProgrammingError)"
| "exec_sql (CREATE_STAGING_TABLE prefix schema) d = Inl ProgrammingError"
| "exec_sql (CREATE_EMIT_FUNC prefix schema) d =
     (if func_text_ok prefix schema \<and> ident schema \<in> set (schemas d)
      then Inr (d\<lparr>routines := List.insert (ident schema, emit_func_name prefix) (routines d)\<rparr>)
      else Inl ProgrammingError)"
| "exec_sql (DROP_TRIGGER prefix schema table_name) d =
     (if trigger_text_ok prefix schema table_name
      then Inr (d\<lparr>triggers := filter (\<lambda>t. \<not> is_trigger prefix schema table_name t) (triggers d)\<rparr>)
      else Inl ProgrammingError)"
| "exec_sql (CREATE_TRIGGER prefix schema table_name events) d =
     (if trigger_text_ok prefix schema table_name
         \<and> (ident schema, ident table_name) \<in> set (relations d)
         \<and> (ident schema, emit_func_name prefix) \<in> set (routines d)
         \<and> filter (is_trigger prefix schema table_name) (triggers d) = []
         \<and> events \<noteq> [] \<and> distinct events
      then Inr (d\<lparr>triggers := triggers d @
                 [\<lparr>tg_name = trigger_name prefix table_name, tg_schema = ident schema,
                   tg_table = ident table_name, tg_events = events\<rparr>]\<rparr>)
      else Inl ProgrammingError)"

text \<open>Whether the database accepts a statement.\<close>

definition accepted :: "sql \<Rightarrow> database \<Rightarrow> bool" where
  "accepted q d = (case exec_sql q d of Inl e \<Rightarrow> False | Inr d' \<Rightarrow> True)"

section \<open>The process: module state and what it has done\<close>

text \<open>A Django model, as far as the module reads it: \<^verbatim>\<open>model._meta.db_table\<close>.\<close>

record model =
  model_name :: string
  db_table :: string

text \<open>\<^verbatim>\<open>@dataclasses.dataclass class Event\<close>. The dataclass checks no field type, so
  every field but \<open>operation\<close> holds whatever the payload held.\<close>

record Event =
  txid :: json
  operation :: EventKind
  table :: json
  row_before :: json
  row_after :: json

text \<open>The signals of \<^verbatim>\<open>pgsignals.signals\<close> that \<^verbatim>\<open>listen\<close> sends.\<close>

datatype signal =
    pgsignals_event
  | pgsignals_insert_event
  | pgsignals_insert_or_update_event
  | pgsignals_update_event
  | pgsignals_delete_event

text \<open>
  The state of one process:
  \<^item> \<open>func_created\<close> is the module global \<^verbatim>\<open>_func_created\<close>;
  \<^item> \<open>connections\<close> is Django's \<^verbatim>\<open>connections\<close>, from alias to database; an alias
    that is not configured raises \<^verbatim>\<open>ConnectionDoesNotExist\<close>;
  \<^item> \<open>issued\<close> lists every statement handed to \<^verbatim>\<open>cursor.execute\<close>, with the alias
    and whether the database accepted it;
  \<^item> \<open>logged\<close> lists the records given to \<^verbatim>\<open>log\<close>;
  \<^item> \<open>lru\<close> is the cache \<^verbatim>\<open>functools.lru_cache\<close> keeps for \<^verbatim>\<open>_table_to_model\<close>,
    most recently used first;
  \<^item> \<open>sent\<close> lists every \<^verbatim>\<open>Signal.send(sender=..., event=...)\<close>, in order.
\<close>

record process =
  func_created :: bool
  connections :: "string \<rightharpoonup> database"
  issued :: "(string \<times> sql \<times> bool) list"
  logged :: "(level \<times> message) list"
  lru :: "(json \<times> model option) list"
  sent :: "(signal \<times> model option \<times> Event) list"

text \<open>The module right after import: \<^verbatim>\<open>_func_created: bool = False\<close>, nothing cached,
  nothing done yet.\<close>

definition initial_process :: "(string \<rightharpoonup> database) \<Rightarrow> process" where
  "initial_process conns =
     \<lparr>func_created = False, connections = conns, issued = [], logged = [], lru = [], sent = []\<rparr>"

definition log_info :: "settings \<Rightarrow> message \<Rightarrow> process \<Rightarrow> process" where
  "log_info cfg m st = (if is_info cfg then st\<lparr>logged := logged st @ [(INFO, m)]\<rparr> else st)"

definition log_error :: "message \<Rightarrow> process \<Rightarrow> process" where
  "log_error m st = st\<lparr>logged := logged st @ [(ERROR, m)]\<rparr>"

section \<open>Binding and unbinding tables\<close>

text \<open>
  \<^verbatim>\<open>def _execute_sql(sql, db): with connections[db].cursor() as cursor: cursor.execute(sql)\<close>.
  A function of the model returns the exception that left it (\<open>None\<close> when it returned)
  and the state it left behind. Django runs in autocommit: a rejected statement changes
  nothing in the database.
\<close>

definition execute_sql :: "sql \<Rightarrow> string \<Rightarrow> process \<Rightarrow> error option \<times> process" where
  "execute_sql q db st =
     (case connections st db of
        None \<Rightarrow> (Some (ConnectionDoesNotExist db), st)
      | Some d \<Rightarrow>
          (case exec_sql q d of
             Inl e \<Rightarrow> (Some e, st\<lparr>issued := issued st @ [(db, q, False)]\<rparr>)
           | Inr d' \<Rightarrow>
               (None, st\<lparr>connections := (connections st)(db \<mapsto> d'),
                          issued := issued st @ [(db, q, True)]\<rparr>)))"

definition unbind_table :: "settings \<Rightarrow> string \<Rightarrow> string \<Rightarrow> string \<Rightarrow> process \<Rightarrow> error option \<times> process" where
  "unbind_table cfg table_name db schema st =
     (case execute_sql (DROP_TRIGGER (PREFIX cfg) schema table_name) db st of
        (Some e, st') \<Rightarrow> (Some e, st')
      | (None, st') \<Rightarrow> (None, log_info cfg (MuteTable table_name) st'))"

definition create_emit_func :: "settings \<Rightarrow> string \<Rightarrow> string \<Rightarrow> process \<Rightarrow> error option \<times> process" where
  "create_emit_func cfg db schema st =
     (case execute_sql (CREATE_EMIT_FUNC (PREFIX cfg) schema) db st of
        (Some e, st') \<Rightarrow> (Some e, st')
      | (None, st') \<Rightarrow> (None, log_info cfg CreateBaseTrigger st'))"

definition create_emit_func_once :: "settings \<Rightarrow> string \<Rightarrow> string \<Rightarrow> process \<Rightarrow> error option \<times> process" where
  "create_emit_func_once cfg db schema st =
     (if \<not> func_created st then
        (case create_emit_func cfg db schema st of
           (Some e, st') \<Rightarrow> (Some e, st')
         | (None, st') \<Rightarrow> (None, st'\<lparr>func_created := True\<rparr>))
      else (None, st))"

definition bind_table :: "settings \<Rightarrow> string \<Rightarrow> EventKind list \<Rightarrow> string \<Rightarrow> string \<Rightarrow> process \<Rightarrow> error option \<times> process" where
  "bind_table cfg table_name events db schema st =
     (case unbind_table cfg table_name db schema st of
        (Some e, st1) \<Rightarrow> (Some e, st1)
      | (None, st1) \<Rightarrow>
          (if length events > 0 then
             (case create_emit_func_once cfg db schema st1 of
                (Some e, st2) \<Rightarrow> (Some e, st2)
              | (None, st2) \<Rightarrow>
                  (case execute_sql (CREATE_TRIGGER (PREFIX cfg) schema table_name events) db st2 of
                     (Some e, st3) \<Rightarrow> (Some e, st3)
                   | (None, st3) \<Rightarrow>
                       (None, log_info cfg (StartListen table_name (map kind_name events)) st3)))
           else (None, st1)))"

text \<open>
  The two wrappers take \<^verbatim>\<open>db\<close> and \<^verbatim>\<open>schema\<close> and pass neither on:
  \<^verbatim>\<open>return bind_table(django_model.objects.model._meta.db_table, events)\<close>, so
  \<^verbatim>\<open>bind_table\<close> runs with its own defaults, the module's \<^verbatim>\<open>DEFAULT_DATABASE\<close> and
  \<^verbatim>\<open>DEFAULT_SCHEMA\<close>.
\<close>

definition bind_model :: "settings \<Rightarrow> model \<Rightarrow> EventKind list \<Rightarrow> string \<Rightarrow> string \<Rightarrow> process \<Rightarrow> error option \<times> process" where
  "bind_model cfg django_model events db schema st =
     bind_table cfg (db_table django_model) events (DEFAULT_DATABASE cfg) (DEFAULT_SCHEMA cfg) st"

definition unbind_model :: "settings \<Rightarrow> model \<Rightarrow> string \<Rightarrow> string \<Rightarrow> process \<Rightarrow> error option \<times> process" where
  "unbind_model cfg django_model db schema st =
     unbind_table cfg (db_table django_model) (DEFAULT_DATABASE cfg) (DEFAULT_SCHEMA cfg) st"

section \<open>Decoding a notification\<close>

text \<open>
  \<^verbatim>\<open>EventKind(value)\<close>: the member whose value is \<open>value\<close>, \<^verbatim>\<open>ValueError\<close> when there is
  none.
\<close>

fun EventKind_of :: "json \<Rightarrow> error + EventKind" where
  "EventKind_of (JStr s) =
     (if s = ''INSERT'' then Inr INSERT
      else if s = ''UPDATE'' then Inr UPDATE
      else if s = ''DELETE'' then Inr DELETE
      else Inl ValueError)"
| "EventKind_of v = Inl ValueError"

definition field_names :: "string list" where
  "field_names = [''txid'', ''operation'', ''table'', ''row_before'', ''row_after'']"

text \<open>
  \<^verbatim>\<open>Event(**_notify)\<close> after \<^verbatim>\<open>_notify["operation"]\<close> has been replaced by the member:
  \<^verbatim>\<open>TypeError\<close> for a key that is no field, and for a field that has no key.
\<close>

definition make_Event :: "(string \<times> json) list \<Rightarrow> EventKind \<Rightarrow> error + Event" where
  "make_Event kvs k =
     (if list_all (\<lambda>x. x \<in> set field_names) (map fst kvs) then
        (case (map_of kvs ''txid'', map_of kvs ''table'',
               map_of kvs ''row_before'', map_of kvs ''row_after'') of
           (Some a, Some b, Some c, Some d) \<Rightarrow>
             Inr \<lparr>txid = a, operation = k, table = b, row_before = c, row_after = d\<rparr>
         | _ \<Rightarrow> Inl TypeError)
      else Inl TypeError)"

text \<open>
  Lines 153, 154 and 158 on the value \<^verbatim>\<open>json.loads\<close> returned. \<^verbatim>\<open>_notify["operation"]\<close>
  raises \<^verbatim>\<open>TypeError\<close> on anything but a dict and \<^verbatim>\<open>KeyError\<close> on a dict without the
  key. None of these exceptions is a \<^verbatim>\<open>json.JSONDecodeError\<close>, the only class the
  \<^verbatim>\<open>except\<close> clause names.
\<close>

definition decode :: "json \<Rightarrow> error + Event" where
  "decode v =
     (case v of
        JObj kvs \<Rightarrow>
          (case map_of kvs ''operation'' of
             None \<Rightarrow> Inl (KeyError ''operation'')
           | Some x \<Rightarrow>
               (case EventKind_of x of
                  Inl e \<Rightarrow> Inl e
                | Inr k \<Rightarrow> make_Event kvs k))
      | _ \<Rightarrow> Inl TypeError)"

section \<open>Resolving the sender\<close>

text \<open>
  The body of \<^verbatim>\<open>_table_to_model\<close>: the first model of \<^verbatim>\<open>apps.get_models()\<close> whose
  \<^verbatim>\<open>db_table\<close> equals the argument; when there is none, an error is logged and \<^verbatim>\<open>None\<close>
  returned. A value that is not a string equals no \<^verbatim>\<open>db_table\<close>.
\<close>

definition first_model :: "model list \<Rightarrow> json \<Rightarrow> model option" where
  "first_model apps table_name =
     (case table_name of JStr s \<Rightarrow> find (\<lambda>m. db_table m = s) apps | _ \<Rightarrow> None)"

definition table_to_model_body :: "model list \<Rightarrow> json \<Rightarrow> process \<Rightarrow> model option \<times> process" where
  "table_to_model_body apps table_name st =
     (case first_model apps table_name of
        Some m \<Rightarrow> (Some m, st)
      | None \<Rightarrow> (None, log_error (CannotFoundModel table_name) st))"

fun hashable :: "json \<Rightarrow> bool" where
  "hashable (JArr xs) = False"
| "hashable (JObj kvs) = False"
| "hashable v = True"

text \<open>
  \<^verbatim>\<open>@functools.lru_cache()\<close> around it (\<^verbatim>\<open>maxsize=128\<close>, \<^verbatim>\<open>typed=False\<close>): a list or a
  dict cannot be hashed (\<^verbatim>\<open>TypeError\<close>); a cached argument returns the cached result
  without running the body, and becomes the most recently used; otherwise the body runs,
  and its result is cached, the least recently used entry leaving a full cache.
\<close>

definition table_to_model :: "model list \<Rightarrow> json \<Rightarrow> process \<Rightarrow> (error + model option) \<times> process" where
  "table_to_model apps table_name st =
     (if \<not> hashable table_name then (Inl TypeError, st)
      else
        (case map_of (lru st) table_name of
           Some r \<Rightarrow>
             (Inr r, st\<lparr>lru := (table_name, r) # filter (\<lambda>p. fst p \<noteq> table_name) (lru st)\<rparr>)
         | None \<Rightarrow>
             (case table_to_model_body apps table_name st of
                (r, st') \<Rightarrow> (Inr r, st'\<lparr>lru := take 128 ((table_name, r) # lru st')\<rparr>))))"

section \<open>Sending the signals\<close>

text \<open>
  \<^verbatim>\<open>signal.send(sender=sender, event=event)\<close>. The receivers are the subscribers' code
  and are not modelled: a send is recorded and returns.
\<close>

definition send :: "signal \<Rightarrow> model option \<Rightarrow> Event \<Rightarrow> process \<Rightarrow> process" where
  "send sig sender ev st = st\<lparr>sent := sent st @ [(sig, sender, ev)]\<rparr>"

text \<open>
  Lines 160 to 182 of \<^verbatim>\<open>listen\<close>: one \<^verbatim>\<open>if\<close> for the insert signal, then one chain
  \<^verbatim>\<open>if is_save ... elif is_update ... elif is_delete\<close>.
\<close>

definition send_signals :: "settings \<Rightarrow> model option \<Rightarrow> Event \<Rightarrow> process \<Rightarrow> process" where
  "send_signals cfg sender ev st =
     (let st1 = send pgsignals_event sender ev st;
          st2 = (if is_create (operation ev)
                 then send pgsignals_insert_event sender ev st1 else st1);
          st3 = (if is_save (operation ev)
                   then send pgsignals_insert_or_update_event sender ev st2
                 else if is_update (operation ev)
                   then send pgsignals_update_event sender ev st2
                 else if is_delete (operation ev)
                   then send pgsignals_delete_event sender ev st2
                 else st2)
      in log_info cfg
           (EmitSignal (table ev) (kind_name (operation ev)) (map_option model_name sender)) st3)"

text \<open>The body of the \<^verbatim>\<open>for notify in iter_notifies()\<close> loop, lines 152 to 182. The
  \<^verbatim>\<open>except\<close> clause catches \<^verbatim>\<open>json.JSONDecodeError\<close> and nothing else.\<close>

definition handle_notify :: "settings \<Rightarrow> model list \<Rightarrow> notify \<Rightarrow> process \<Rightarrow> error option \<times> process" where
  "handle_notify cfg apps n st =
     (case n of
        JSONDecodeError \<Rightarrow> (None, log_error DecodeFailure st)
      | OtherError e \<Rightarrow> (Some e, st)
      | Loaded v \<Rightarrow>
          (case decode v of
             Inl e \<Rightarrow> (Some e, st)
           | Inr ev \<Rightarrow>
               (case table_to_model apps (table ev) st of
                  (Inl e, st') \<Rightarrow> (Some e, st')
                | (Inr sender, st') \<Rightarrow> (None, send_signals cfg sender ev st'))))"

section \<open>The listener loop\<close>

text \<open>
  \<^verbatim>\<open>while conn.notifies: yield conn.notifies.pop()\<close> with the loop body run at each
  \<^verbatim>\<open>yield\<close>. \<^verbatim>\<open>list.pop()\<close> takes the last element. \<^verbatim>\<open>conn.notifies\<close> holds the
  notifications in the order they arrived. An exception of the body ends the loop.
\<close>

function drain_notifies :: "settings \<Rightarrow> model list \<Rightarrow> notify list \<Rightarrow> process \<Rightarrow> error option \<times> process" where
  "drain_notifies cfg apps notifies st =
     (if notifies = [] then (None, st)
      else
        (case handle_notify cfg apps (last notifies) st of
           (Some e, st') \<Rightarrow> (Some e, st')
         | (None, st') \<Rightarrow> drain_notifies cfg apps (butlast notifies) st'))"
  by pat_completeness auto
termination
  by (relation "measure (\<lambda>(cfg, apps, notifies, st). length notifies)") auto

declare drain_notifies.simps [simp del]

text \<open>
  \<^verbatim>\<open>iter_notifies\<close> names \<^verbatim>\<open>stop_secs\<close>, which neither it nor \<^verbatim>\<open>listen\<close> assigns: Python
  looks the name up in the module's globals each time the line runs. The module binds no
  such name (\<open>Unbound\<close>, a \<^verbatim>\<open>NameError\<close>); the other two cases are a process in which
  the name has been bound from outside, to \<^verbatim>\<open>None\<close> or to a number.
\<close>

datatype lookup = Unbound | None_value | Int_value int

definition module_stop_secs :: lookup where
  "module_stop_secs = Unbound"

text \<open>
  One turn of \<^verbatim>\<open>while True\<close> as the world answers it: \<open>elapsed\<close> is
  \<^verbatim>\<open>_now() - started_at\<close> in whole seconds when the turn starts, \<open>ready\<close> is
  \<^verbatim>\<open>any(select.select([conn],[],[], poll_timeout))\<close>, and \<open>arrived\<close> is what
  \<^verbatim>\<open>conn.poll()\<close> appends to \<^verbatim>\<open>conn.notifies\<close>, in arrival order.
\<close>

record cycle =
  elapsed :: nat
  ready :: bool
  arrived :: "notify list"

text \<open>\<^verbatim>\<open>if stop_secs: if (_now() - started_at).seconds >= stop_secs: return\<close>.
  \<^verbatim>\<open>timedelta.seconds\<close> is the seconds within the day.\<close>

fun stop_due :: "lookup \<Rightarrow> nat \<Rightarrow> bool" where
  "stop_due (Int_value n) e = (n \<noteq> 0 \<and> n \<le> int (e mod 86400))"
| "stop_due g e = False"

text \<open>
  How far the listener got on a finite script of turns: the generator returned
  (\<open>Stopped\<close>), an exception left \<^verbatim>\<open>listen\<close> (\<open>Raised\<close>), or the script ended with the
  listener still in its loop (\<open>Waiting\<close>).
\<close>

datatype outcome = Stopped | Raised error | Waiting

fun listen_loop :: "settings \<Rightarrow> model list \<Rightarrow> lookup \<Rightarrow> notify list \<Rightarrow> cycle list \<Rightarrow> process \<Rightarrow> outcome \<times> process" where
  "listen_loop cfg apps Unbound notifies cs st = (Raised (NameError ''stop_secs''), st)"
| "listen_loop cfg apps g notifies [] st = (Waiting, st)"
| "listen_loop cfg apps g notifies (c # cs) st =
     (if stop_due g (elapsed c) then (Stopped, st)
      else if ready c then
        (case drain_notifies cfg apps (notifies @ arrived c) st of
           (Some e, st') \<Rightarrow> (Raised e, st')
         | (None, st') \<Rightarrow> listen_loop cfg apps g [] cs st')
      else listen_loop cfg apps g notifies cs st)"

text \<open>
  \<^verbatim>\<open>listen(db, schema, poll_timeout, listen_timeout, events_limit)\<close>. The body reads
  \<^verbatim>\<open>db\<close> and \<^verbatim>\<open>poll_timeout\<close> only; \<^verbatim>\<open>poll_timeout\<close> bounds each \<^verbatim>\<open>select\<close>, whose
  answers are the script's.
\<close>

definition listen :: "settings \<Rightarrow> model list \<Rightarrow> lookup \<Rightarrow> string \<Rightarrow> string \<Rightarrow> nat \<Rightarrow> nat option \<Rightarrow> nat option \<Rightarrow> cycle list \<Rightarrow> process \<Rightarrow> outcome \<times> process" where
  "listen cfg apps g db schema poll_timeout listen_timeout events_limit script st =
     (case execute_sql (LISTEN (PREFIX cfg)) db st of
        (Some e, st') \<Rightarrow> (Raised e, st')
      | (None, st') \<Rightarrow> listen_loop cfg apps g [] script st')"

section \<open>Sequential use of the module\<close>

text \<open>
  A caller's sequence of calls into the binding functions, run one after the other in one
  process; a call that raises leaves the state it reached, and the caller goes on.
\<close>

datatype call =
    Bind string "EventKind list" string string
  | Unbind string string string
  | Once string string

fun run_call :: "settings \<Rightarrow> call \<Rightarrow> process \<Rightarrow> error option \<times> process" where
  "run_call cfg (Bind table_name events db schema) st = bind_table cfg table_name events db schema st"
| "run_call cfg (Unbind table_name db schema) st = unbind_table cfg table_name db schema st"
| "run_call cfg (Once db schema) st = create_emit_func_once cfg db schema st"

fun run_calls :: "settings \<Rightarrow> call list \<Rightarrow> process \<Rightarrow> process" where
  "run_calls cfg [] st = st"
| "run_calls cfg (c # cs) st = run_calls cfg cs (snd (run_call cfg c st))"

text \<open>
  Each call of \<^verbatim>\<open>create_emit_func\<close> on a configured alias hands one
  \<^verbatim>\<open>CREATE_EMIT_FUNC\<close> statement to the database: \<open>invocations\<close> counts them,
  \<open>installs\<close> those the database accepted.
\<close>

fun is_install :: "sql \<Rightarrow> bool" where
  "is_install (CREATE_EMIT_FUNC prefix schema) = True"
| "is_install q = False"

definition invocations :: "process \<Rightarrow> nat" where
  "invocations st = length (filter (\<lambda>(db, q, ok). is_install q) (issued st))"

definition installs :: "process \<Rightarrow> nat" where
  "installs st = length (filter (\<lambda>(db, q, ok). is_install q \<and> ok) (issued st))"

text \<open>The cache holds results of \<^verbatim>\<open>_table_to_model\<close>'s body for the models of this
  process.\<close>

definition lru_consistent :: "model list \<Rightarrow> process \<Rightarrow> bool" where
  "lru_consistent apps st = list_all (\<lambda>(k, r). r = first_model apps k) (lru st)"

section \<open>Notions used to state the properties\<close>

text \<open>The notifications of a list handled one after the other, first to last, stopping
  at the first exception.\<close>

fun handle_in_order :: "settings \<Rightarrow> model list \<Rightarrow> notify list \<Rightarrow> process \<Rightarrow> error option \<times> process" where
  "handle_in_order cfg apps [] st = (None, st)"
| "handle_in_order cfg apps (n # ns) st =
     (case handle_notify cfg apps n st of
        (Some e, st') \<Rightarrow> (Some e, st')
      | (None, st') \<Rightarrow> handle_in_order cfg apps ns st')"

text \<open>The \<^verbatim>\<open>txid\<close> of each event given to the receivers of \<^verbatim>\<open>pgsignals_event\<close>, the
  signal sent for every event, in the order of the sends.\<close>

definition dispatched :: "process \<Rightarrow> json list" where
  "dispatched st =
     map (\<lambda>(sig, sender, ev). txid ev) (filter (\<lambda>(sig, sender, ev). sig = pgsignals_event) (sent st))"




text \<open>What the flag and the accepted installations have to do with each other in every
  state the binding functions reach.\<close>

definition flag_inv :: "process \<Rightarrow> bool" where
  "flag_inv st = (installs st \<le> 1 \<and> (func_created st \<or> installs st = 0))"

section \<open>Example inputs\<close>

definition cfg0 :: settings where
  "cfg0 = \<lparr>PREFIX = ''pgsignals'', DEFAULT_SCHEMA = ''public'',
           DEFAULT_DATABASE = ''default'', is_info = False\<rparr>"

text \<open>A database with the schema \<open>public\<close> and one table \<open>book\<close>, nothing installed.\<close>

definition db0 :: database where
  "db0 = \<lparr>schemas = [''public''], relations = [(''public'', ''book'')],
          routines = [], triggers = []\<rparr>"

definition st0 :: process where
  "st0 = initial_process [''default'' \<mapsto> db0]"

text \<open>A database with two schemas, \<open>public\<close> and \<open>s2\<close>, and a table \<open>book\<close> in each;
  a process on it at its start, and the same process after
  \<^verbatim>\<open>bind_table("book", ALL_EVENTS, "default", "public")\<close>.\<close>

definition db2 :: database where
  "db2 = \<lparr>schemas = [''public'', ''s2''],
          relations = [(''public'', ''book''), (''s2'', ''book'')],
          routines = [], triggers = []\<rparr>"

definition st2 :: process where
  "st2 = initial_process [''default'' \<mapsto> db2]"


definition book :: model where
  "book = \<lparr>model_name = ''Book'', db_table = ''book''\<rparr>"

text \<open>The payload \<^verbatim>\<open>{"txid": n, "operation": op, "table": t, "row_before": null,
  "row_after": null}\<close> as \<^verbatim>\<open>json.loads\<close> returns it.\<close>

definition change_record :: "int \<Rightarrow> string \<Rightarrow> string \<Rightarrow> json" where
  "change_record n op t =
     JObj [(''txid'', JNum n), (''operation'', JStr op), (''table'', JStr t),
           (''row_before'', JNull), (''row_after'', JNull)]"

definition payload :: "int \<Rightarrow> string \<Rightarrow> string \<Rightarrow> notify" where
  "payload n op t = Loaded (change_record n op t)"

definition event :: "int \<Rightarrow> EventKind \<Rightarrow> string \<Rightarrow> Event" where
  "event n k t = \<lparr>txid = JNum n, operation = k, table = JStr t,
                  row_before = JNull, row_after = JNull\<rparr>"

text \<open>A turn in which \<^verbatim>\<open>select\<close> reports the connection readable and \<^verbatim>\<open>poll\<close> brings
  the given notifications.\<close>

definition wake :: "nat \<Rightarrow> notify list \<Rightarrow> cycle" where
  "wake e ns = \<lparr>elapsed = e, ready = True, arrived = ns\<rparr>"

section \<open>Evaluating the model\<close>

lemma drain_notifies_Nil: "drain_notifies cfg apps [] st = (None, st)"
  by (simp add: drain_notifies.simps)

lemma drain_notifies_snoc:
  "drain_notifies cfg apps (ns @ [n]) st =
     (case handle_notify cfg apps n st of
        (Some e, st') \<Rightarrow> (Some e, st')
      | (None, st') \<Rightarrow> drain_notifies cfg apps ns st')"
  by (subst drain_notifies.simps) (simp split: prod.splits option.splits)

lemma drain_notifies_rev:
  "drain_notifies cfg apps ns st = handle_in_order cfg apps (rev ns) st"
proof (induction ns arbitrary: st rule: rev_induct)
  case Nil
  show ?case by (simp add: drain_notifies_Nil)
next
  case (snoc n ns)
  show ?case
    by (simp add: drain_notifies_snoc snoc.IH split: prod.splits option.splits)
qed

lemmas name_defs =
  ident_def quotable_def dquote_def squote_def dollar_def nul_def ident_start_def ident_cont_def
  trigger_text_ok_def func_text_ok_def trigger_name_def emit_func_name_def
  staging_table_name_def is_trigger_def

lemmas listener_defs =
  name_defs exec_sql.simps listen_def execute_sql_def st0_def initial_process_def cfg0_def db0_def wake_def
  payload_def change_record_def handle_notify_def decode_def make_Event_def field_names_def
  table_to_model_def table_to_model_body_def first_model_def send_signals_def send_def
  log_info_def log_error_def is_create_def is_save_def is_update_def is_delete_def
  drain_notifies_rev book_def event_def kind_name_def dispatched_def

lemmas binding_defs =
  bind_table_def unbind_table_def create_emit_func_once_def create_emit_func_def
  execute_sql_def log_info_def st0_def initial_process_def db0_def cfg0_def ALL_EVENTS_def
  invocations_def installs_def name_defs

section \<open>Dispatch of one event\<close>

text \<open>
  C1 (what the code does). For an event whose operation is \<open>UPDATE\<close> the listener sends
  two signals, \<^verbatim>\<open>pgsignals_event\<close> and \<^verbatim>\<open>pgsignals_insert_or_update_event\<close>, in this
  order, and never \<^verbatim>\<open>pgsignals_update_event\<close>: the update branch is an \<^verbatim>\<open>elif\<close> of the
  \<^verbatim>\<open>is_save\<close> test, which every update passes. The second conjunct is the notification
  \<^verbatim>\<open>{"txid": 1, "operation": "UPDATE", "table": "book", ...}\<close> handled from the start.
\<close>

theorem update_event_sends_no_update_signal:
  "sent (send_signals cfg sender (ev\<lparr>operation := UPDATE\<rparr>) st) =
     sent st @ [(pgsignals_event, sender, ev\<lparr>operation := UPDATE\<rparr>),
                (pgsignals_insert_or_update_event, sender, ev\<lparr>operation := UPDATE\<rparr>)]
   \<and> handle_notify cfg0 [book] (payload 1 ''UPDATE'' ''book'') st0 =
       (None, st0\<lparr>lru := [(JStr ''book'', Some book)],
                  sent := [(pgsignals_event, Some book, event 1 UPDATE ''book''),
                           (pgsignals_insert_or_update_event, Some book, event 1 UPDATE ''book'')]\<rparr>)"
  by (simp add: listener_defs Let_def)

section \<open>Decode failures\<close>

text \<open>
  C2 (what the code does). A payload that \<^verbatim>\<open>json.loads\<close> parses and whose operation is
  \<open>FOO\<close> raises \<^verbatim>\<open>ValueError\<close> out of the loop body: nothing is logged, nothing is
  sent, the state is as before. In a process where \<^verbatim>\<open>stop_secs\<close> is bound to \<^verbatim>\<open>None\<close>, a
  listener that receives such a payload and then a well-formed one ends with the
  \<^verbatim>\<open>ValueError\<close> and dispatches nothing.
\<close>

theorem unknown_operation_raises_ValueError:
  "handle_notify cfg apps (Loaded (JObj ((''operation'', JStr ''FOO'') # kvs))) st =
     (Some ValueError, st)
   \<and> fst (listen cfg0 [book] None_value ''default'' ''public'' 5 None None
            [wake 0 [payload 1 ''FOO'' ''book''], wake 1 [payload 2 ''INSERT'' ''book'']] st0)
       = Raised ValueError
   \<and> dispatched (snd (listen cfg0 [book] None_value ''default'' ''public'' 5 None None
            [wake 0 [payload 1 ''FOO'' ''book''], wake 1 [payload 2 ''INSERT'' ''book'']] st0))
       = []
   \<and> logged (snd (listen cfg0 [book] None_value ''default'' ''public'' 5 None None
            [wake 0 [payload 1 ''FOO'' ''book''], wake 1 [payload 2 ''INSERT'' ''book'']] st0))
       = []"
  by (simp add: listener_defs)

text \<open>The failure the \<^verbatim>\<open>except\<close> clause does name is logged and skipped, and the next
  notification is handled.\<close>

lemma JSONDecodeError_is_skipped:
  "handle_notify cfg apps JSONDecodeError st = (None, log_error DecodeFailure st)
   \<and> fst (listen cfg0 [book] None_value ''default'' ''public'' 5 None None
            [wake 0 [JSONDecodeError], wake 1 [payload 2 ''INSERT'' ''book'']] st0) = Waiting
   \<and> dispatched (snd (listen cfg0 [book] None_value ''default'' ''public'' 5 None None
            [wake 0 [JSONDecodeError], wake 1 [payload 2 ''INSERT'' ''book'']] st0)) = [JNum 2]"
  by (simp add: listener_defs)

text \<open>Any other exception of \<^verbatim>\<open>json.loads\<close> leaves the loop body as the \<^verbatim>\<open>ValueError\<close> of
  \<^verbatim>\<open>EventKind\<close> does.\<close>

lemma other_loads_error_is_raised:
  "handle_notify cfg apps (OtherError e) st = (Some e, st)"
  by (simp add: handle_notify_def)

section \<open>Stopping the listener\<close>

text \<open>What ends the loop is the value of \<^verbatim>\<open>stop_secs\<close>: bound to \<^verbatim>\<open>None\<close> the generator
  never returns; bound to a number other than 0 it returns at the first turn that starts
  that many seconds into the day of the start, or later.\<close>

lemma listen_loop_never_stops:
  "fst (listen_loop cfg apps None_value ns cs st) \<noteq> Stopped"
proof (induction cs arbitrary: ns st)
  case Nil
  show ?case by simp
next
  case (Cons c cs)
  obtain r s where d: "drain_notifies cfg apps (ns @ arrived c) st = (r, s)"
    by (cases "drain_notifies cfg apps (ns @ arrived c) st")
  show ?case
    using Cons.IH [of "[]" s] Cons.IH [of ns st] by (cases r) (simp_all add: d)
qed

lemma listen_loop_stops_when_due:
  "stop_due (Int_value n) (elapsed c) \<Longrightarrow>
   listen_loop cfg apps (Int_value n) ns (c # cs) st = (Stopped, st)"
  by simp

text \<open>
  C3 (what the code does). The module binds no \<^verbatim>\<open>stop_secs\<close>, so on a configured alias
  \<^verbatim>\<open>listen\<close> issues \<^verbatim>\<open>LISTEN\<close> and then, unless the prefix makes no channel name and the
  database rejects the statement, raises \<^verbatim>\<open>NameError\<close> at the first turn of the loop,
  whatever \<^verbatim>\<open>listen_timeout\<close> is and whatever arrives: the iterator never returns.
  \<^verbatim>\<open>listen_timeout\<close> is not read: in a process where \<^verbatim>\<open>stop_secs\<close> is bound to \<^verbatim>\<open>None\<close>, a
  listener started with \<^verbatim>\<open>listen_timeout=5\<close> is still in its loop 60 seconds after the
  start and dispatches what arrives then.
\<close>

theorem listen_raises_NameError:
  "listen cfg apps module_stop_secs db schema poll_timeout listen_timeout events_limit script st =
     (case connections st db of
        None \<Rightarrow> (Raised (ConnectionDoesNotExist db), st)
      | Some d \<Rightarrow>
          (if unquoted_ident (PREFIX cfg @ ''__events'')
           then (Raised (NameError ''stop_secs''),
                 st\<lparr>connections := (connections st)(db \<mapsto> d),
                    issued := issued st @ [(db, LISTEN (PREFIX cfg), True)]\<rparr>)
           else (Raised ProgrammingError,
                 st\<lparr>issued := issued st @ [(db, LISTEN (PREFIX cfg), False)]\<rparr>)))
   \<and> fst (listen cfg0 [book] None_value ''default'' ''public'' 5 (Some 5) None
            [wake 0 [payload 1 ''INSERT'' ''book''], wake 60 [payload 2 ''INSERT'' ''book'']] st0)
       = Waiting
   \<and> dispatched (snd (listen cfg0 [book] None_value ''default'' ''public'' 5 (Some 5) None
            [wake 0 [payload 1 ''INSERT'' ''book''], wake 60 [payload 2 ''INSERT'' ''book'']] st0))
       = [JNum 1, JNum 2]"
  by (simp add: listener_defs module_stop_secs_def split: option.splits)

text \<open>
  C4 (what the code does). \<^verbatim>\<open>events_limit\<close> is not read either: \<^verbatim>\<open>listen\<close> does the same
  with any limit as with none. In a process where \<^verbatim>\<open>stop_secs\<close> is bound to \<^verbatim>\<open>None\<close>, a
  listener started with \<^verbatim>\<open>events_limit=1\<close> dispatches both of two events that arrive
  one after the other, and is still in its loop afterwards.
\<close>

theorem events_limit_is_not_enforced:
  "listen cfg apps g db schema poll_timeout listen_timeout events_limit script st =
     listen cfg apps g db schema poll_timeout listen_timeout None script st
   \<and> fst (listen cfg0 [book] None_value ''default'' ''public'' 5 None (Some 1)
            [wake 0 [payload 1 ''INSERT'' ''book''], wake 1 [payload 2 ''INSERT'' ''book'']] st0)
       = Waiting
   \<and> dispatched (snd (listen cfg0 [book] None_value ''default'' ''public'' 5 None (Some 1)
            [wake 0 [payload 1 ''INSERT'' ''book''], wake 1 [payload 2 ''INSERT'' ''book'']] st0))
       = [JNum 1, JNum 2]"
  by (simp add: listener_defs)

section \<open>Order within a batch\<close>

text \<open>
  C7 (what the code does). \<^verbatim>\<open>conn.notifies.pop()\<close> takes the notification that arrived
  last: a batch is handled in the reverse of its arrival order. In a process where
  \<^verbatim>\<open>stop_secs\<close> is bound to \<^verbatim>\<open>None\<close>, a turn that brings the events 1 and 2, in this
  order, dispatches 2 before 1.
\<close>

theorem batch_is_handled_last_arrived_first:
  "drain_notifies cfg apps ns st = handle_in_order cfg apps (rev ns) st
   \<and> dispatched (snd (listen cfg0 [book] None_value ''default'' ''public'' 5 None None
            [wake 0 [payload 1 ''INSERT'' ''book'', payload 2 ''INSERT'' ''book'']] st0))
       = [JNum 2, JNum 1]"
proof -
  have "drain_notifies cfg apps ns st = handle_in_order cfg apps (rev ns) st"
    by (rule drain_notifies_rev)
  moreover have
    "dispatched (snd (listen cfg0 [book] None_value ''default'' ''public'' 5 None None
            [wake 0 [payload 1 ''INSERT'' ''book'', payload 2 ''INSERT'' ''book'']] st0))
       = [JNum 2, JNum 1]"
    by (simp add: listener_defs)
  ultimately show ?thesis by simp
qed

section \<open>A table no model has\<close>

lemma lru_consistent_cached:
  "lru_consistent apps st \<Longrightarrow> map_of (lru st) k = Some r \<Longrightarrow> r = first_model apps k"
  by (auto simp add: lru_consistent_def list_all_iff dest: map_of_SomeD)

lemma send_signals_lru [simp]: "lru (send_signals cfg sender ev st) = lru st"
  by (simp add: send_signals_def send_def log_info_def Let_def)

lemma send_signals_logged:
  "logged (send_signals cfg sender ev st) =
     logged st @ (if is_info cfg
                  then [(INFO, EmitSignal (table ev) (kind_name (operation ev))
                                 (map_option model_name sender))]
                  else [])"
  by (simp add: send_signals_def send_def log_info_def Let_def)

lemma send_signals_senders:
  "set (map (\<lambda>(sig, sender', e). sender') (drop (length (sent st)) (sent (send_signals cfg sender ev st))))
     = {sender}"
  by (simp add: send_signals_def send_def log_info_def Let_def)

lemma table_to_model_consistent:
  "lru_consistent apps st \<Longrightarrow> lru_consistent apps (snd (table_to_model apps t st))"
  by (auto simp add: table_to_model_def table_to_model_body_def log_error_def lru_consistent_def
      list_all_iff split: option.splits dest: map_of_SomeD in_set_takeD)

lemma handle_notify_consistent:
  "lru_consistent apps st \<Longrightarrow> lru_consistent apps (snd (handle_notify cfg apps n st))"
proof (cases n)
  case JSONDecodeError
  assume "lru_consistent apps st"
  then show ?thesis
    by (simp add: JSONDecodeError handle_notify_def log_error_def lru_consistent_def)
next
  case (OtherError e)
  assume "lru_consistent apps st"
  then show ?thesis
    by (simp add: OtherError handle_notify_def)
next
  case (Loaded v)
  assume a: "lru_consistent apps st"
  show ?thesis
  proof (cases "decode v")
    case (Inl e)
    then show ?thesis using a by (simp add: Loaded handle_notify_def)
  next
    case (Inr ev)
    obtain r s where t: "table_to_model apps (table ev) st = (r, s)"
      by (cases "table_to_model apps (table ev) st")
    have c: "lru_consistent apps s"
      using table_to_model_consistent [OF a, of "table ev"] t by simp
    show ?thesis
      using c by (cases r) (simp_all add: Loaded Inr handle_notify_def t lru_consistent_def)
  qed
qed

lemma table_to_model_unknown:
  assumes "first_model apps (JStr s) = None" and "lru_consistent apps st"
  shows "fst (table_to_model apps (JStr s) st) = Inr None"
    and "logged (snd (table_to_model apps (JStr s) st)) =
           logged st @ (if map_of (lru st) (JStr s) = None
                        then [(ERROR, CannotFoundModel (JStr s))] else [])"
    and "sent (snd (table_to_model apps (JStr s) st)) = sent st"
  using assms lru_consistent_cached [OF assms(2), of "JStr s"]
  by (auto simp add: table_to_model_def table_to_model_body_def log_error_def split: option.splits)

text \<open>The hypothesis on the cache holds from the start of the process and through every
  run of the listener.\<close>

lemma initial_lru_consistent: "lru_consistent apps (initial_process conns)"
  by (simp add: lru_consistent_def initial_process_def)

lemma handle_in_order_consistent:
  "lru_consistent apps st \<Longrightarrow> lru_consistent apps (snd (handle_in_order cfg apps ns st))"
proof (induction ns arbitrary: st)
  case Nil
  then show ?case by simp
next
  case (Cons n ns)
  obtain r s where h: "handle_notify cfg apps n st = (r, s)"
    by (cases "handle_notify cfg apps n st")
  have c: "lru_consistent apps s"
    using handle_notify_consistent [OF Cons.prems, of cfg n] h by simp
  show ?case
    using c Cons.IH [OF c] by (cases r) (simp_all add: h)
qed

lemma listen_loop_consistent:
  "lru_consistent apps st \<Longrightarrow> lru_consistent apps (snd (listen_loop cfg apps g ns cs st))"
proof (induction cs arbitrary: ns st)
  case Nil
  then show ?case by (cases g) simp_all
next
  case (Cons c cs)
  obtain r s where d: "drain_notifies cfg apps (ns @ arrived c) st = (r, s)"
    by (cases "drain_notifies cfg apps (ns @ arrived c) st")
  have k: "lru_consistent apps s"
    using handle_in_order_consistent [OF Cons.prems, of cfg "rev (ns @ arrived c)"] d
    by (simp add: drain_notifies_rev)
  have after: "lru_consistent apps (snd (listen_loop cfg apps g [] cs s))"
    by (rule Cons.IH [OF k])
  have skip: "lru_consistent apps (snd (listen_loop cfg apps g ns cs st))"
    by (rule Cons.IH [OF Cons.prems])
  show ?case
    using Cons.prems k after skip by (cases g; cases r) (auto simp add: d)
qed

lemma listen_consistent:
  "lru_consistent apps st \<Longrightarrow>
   lru_consistent apps (snd (listen cfg apps g db schema poll_timeout listen_timeout events_limit script st))"
  using listen_loop_consistent [of apps _ cfg g "[]" script]
  by (auto simp add: listen_def execute_sql_def lru_consistent_def split: option.splits sum.splits)

text \<open>
  C9 as stated fails: \<^verbatim>\<open>_table_to_model\<close> is memoised by \<^verbatim>\<open>lru_cache\<close>, so the error is
  logged by the first event of an unknown table only. The second event for the table
  \<open>nope\<close> is dispatched with the absent sender and logs nothing.
\<close>

theorem cached_miss_logs_nothing:
  "first_model [book] (JStr ''nope'') = None
   \<and> logged (snd (handle_notify cfg0 [book] (payload 1 ''INSERT'' ''nope'') st0)) =
       [(ERROR, CannotFoundModel (JStr ''nope''))]
   \<and> handle_notify cfg0 [book] (payload 2 ''INSERT'' ''nope'')
        (snd (handle_notify cfg0 [book] (payload 1 ''INSERT'' ''nope'') st0)) =
       (None, (snd (handle_notify cfg0 [book] (payload 1 ''INSERT'' ''nope'') st0))
          \<lparr>sent := sent (snd (handle_notify cfg0 [book] (payload 1 ''INSERT'' ''nope'') st0))
                   @ [(pgsignals_event, None, event 2 INSERT ''nope''),
                      (pgsignals_insert_event, None, event 2 INSERT ''nope''),
                      (pgsignals_insert_or_update_event, None, event 2 INSERT ''nope'')]\<rparr>)"
  by (simp add: listener_defs Let_def)

text \<open>
  C9, amended. For a decoded event whose table name is the \<^verbatim>\<open>db_table\<close> of no model, in
  a process whose cache holds results for these models, \<^verbatim>\<open>_table_to_model\<close> returns
  \<^verbatim>\<open>None\<close> and raises nothing; it logs the error when the table name is not in its cache
  (the first time the name is looked up, and again after the cache has dropped it) and
  nothing when it is. Either way the loop body returns, and the signals sent are those
  of the event with the absent sender, \<^verbatim>\<open>pgsignals_event\<close> first: the event is not
  dropped.
\<close>

theorem unknown_table_is_dispatched_without_sender:
  assumes "decode v = Inr ev"
    and "table ev = JStr s"
    and "find (\<lambda>m. db_table m = s) apps = None"
    and "lru_consistent apps st"
  shows "fst (table_to_model apps (table ev) st) = Inr None
   \<and> fst (handle_notify cfg apps (Loaded v) st) = None
   \<and> sent (snd (handle_notify cfg apps (Loaded v) st)) = sent (send_signals cfg None ev st)
   \<and> take (Suc (length (sent st))) (sent (snd (handle_notify cfg apps (Loaded v) st))) =
       sent st @ [(pgsignals_event, None, ev)]
   \<and> set (map (\<lambda>(sig, sender, e). sender)
            (drop (length (sent st)) (sent (snd (handle_notify cfg apps (Loaded v) st))))) = {None}
   \<and> logged (snd (handle_notify cfg apps (Loaded v) st)) =
       logged st
       @ (if map_of (lru st) (JStr s) = None then [(ERROR, CannotFoundModel (JStr s))] else [])
       @ (if is_info cfg then [(INFO, EmitSignal (JStr s) (kind_name (operation ev)) None)] else [])
   \<and> lru_consistent apps (snd (handle_notify cfg apps (Loaded v) st))"
proof -
  have miss: "first_model apps (JStr s) = None"
    using assms(3) by (simp add: first_model_def)
  note r = table_to_model_unknown [OF miss assms(4)]
  obtain st' where t: "table_to_model apps (JStr s) st = (Inr None, st')"
    using r(1) by (cases "table_to_model apps (JStr s) st") simp
  have st': "logged st' = logged st @ (if map_of (lru st) (JStr s) = None
                        then [(ERROR, CannotFoundModel (JStr s))] else [])"
    "sent st' = sent st"
    using r(2,3) t by simp_all
  have h: "handle_notify cfg apps (Loaded v) st = (None, send_signals cfg None ev st')"
    by (simp add: handle_notify_def assms(1,2) t)
  have s1: "sent (send_signals cfg None ev st') = sent (send_signals cfg None ev st)"
    using st'(2) by (simp add: send_signals_def send_def log_info_def Let_def)
  have s2: "take (Suc (length (sent st))) (sent (send_signals cfg None ev st)) =
       sent st @ [(pgsignals_event, None, ev)]"
    by (simp add: send_signals_def send_def log_info_def Let_def)
  have s3: "set (map (\<lambda>(sig, sender, e). sender)
            (drop (length (sent st)) (sent (send_signals cfg None ev st)))) = {None}"
    by (rule send_signals_senders)
  have l: "logged (send_signals cfg None ev st') =
       logged st
       @ (if map_of (lru st) (JStr s) = None then [(ERROR, CannotFoundModel (JStr s))] else [])
       @ (if is_info cfg then [(INFO, EmitSignal (JStr s) (kind_name (operation ev)) None)] else [])"
    by (simp add: send_signals_logged st'(1) assms(2))
  have c: "lru_consistent apps (snd (handle_notify cfg apps (Loaded v) st))"
    by (rule handle_notify_consistent [OF assms(4)])
  show ?thesis
    using r(1) s2 s3 l c by (simp add: h s1 assms(2))
qed

theorem unknown_table_is_dispatched_without_sender_witness:
  "decode (change_record 1 ''DELETE'' ''nope'') = Inr (event 1 DELETE ''nope'')
   \<and> find (\<lambda>m. db_table m = ''nope'') [book] = None
   \<and> lru_consistent [book] st0
   \<and> fst (handle_notify cfg0 [book] (Loaded (change_record 1 ''DELETE'' ''nope'')) st0) = None
   \<and> sent (snd (handle_notify cfg0 [book] (Loaded (change_record 1 ''DELETE'' ''nope'')) st0)) =
       [(pgsignals_event, None, event 1 DELETE ''nope''),
        (pgsignals_delete_event, None, event 1 DELETE ''nope'')]
   \<and> logged (snd (handle_notify cfg0 [book] (Loaded (change_record 1 ''DELETE'' ''nope'')) st0)) =
       [(ERROR, CannotFoundModel (JStr ''nope''))]"
proof -
  have h: "decode (change_record 1 ''DELETE'' ''nope'') = Inr (event 1 DELETE ''nope'')"
    "table (event 1 DELETE ''nope'') = JStr ''nope''"
    "find (\<lambda>m. db_table m = ''nope'') [book] = None"
    "lru_consistent [book] st0"
    by (simp_all add: listener_defs lru_consistent_def)
  have s: "sent (send_signals cfg0 None (event 1 DELETE ''nope'') st0) =
       [(pgsignals_event, None, event 1 DELETE ''nope''),
        (pgsignals_delete_event, None, event 1 DELETE ''nope'')]"
    by (simp add: listener_defs Let_def)
  have e: "lru st0 = []" "logged st0 = []" "is_info cfg0 = False"
    by (simp_all add: st0_def initial_process_def cfg0_def)
  show ?thesis
    using unknown_table_is_dispatched_without_sender [OF h, of cfg0] h(1,3,4)
    by (simp add: s e)
qed

section \<open>Installing the capture routine\<close>

text \<open>A second \<^verbatim>\<open>create_emit_func\<close> for the same schema leaves the databases as the first
  left them.\<close>

lemma create_emit_func_twice:
  "connections (snd (create_emit_func cfg db schema (snd (create_emit_func cfg db schema st)))) =
     connections (snd (create_emit_func cfg db schema st))"
  by (auto simp add: create_emit_func_def execute_sql_def log_info_def fun_eq_iff
      split: option.splits)

text \<open>
  C5 (what the code does). \<^verbatim>\<open>create_emit_func\<close> hands one statement to the database,
  \<^verbatim>\<open>CREATE_EMIT_FUNC\<close>, and never \<^verbatim>\<open>CREATE_STAGING_TABLE\<close>: the tables of every database
  are after the call what they were before. On a database without the staging table
  \<^verbatim>\<open>pgsignals__events\<close> the call returns and the table is still missing.
\<close>

theorem create_emit_func_creates_no_table:
  "issued (snd (create_emit_func cfg db schema st)) =
     issued st @ (case connections st db of
                    None \<Rightarrow> []
                  | Some d \<Rightarrow>
                      [(db, CREATE_EMIT_FUNC (PREFIX cfg) schema,
                        accepted (CREATE_EMIT_FUNC (PREFIX cfg) schema) d)])
   \<and> map_option relations (connections (snd (create_emit_func cfg db schema st)) a) =
       map_option relations (connections st a)
   \<and> fst (create_emit_func cfg0 ''default'' ''public'' st0) = None
   \<and> map_option relations (connections (snd (create_emit_func cfg0 ''default'' ''public'' st0)) ''default'')
       = Some [(''public'', ''book'')]
   \<and> staging_table_name (PREFIX cfg0) = ''pgsignals__events''"
  by (simp add: create_emit_func_def execute_sql_def log_info_def st0_def initial_process_def
      db0_def cfg0_def accepted_def name_defs split: option.splits)

section \<open>Binding a table twice\<close>









section \<open>The installed flag\<close>

lemma once_flag:
  "func_created (snd (create_emit_func_once cfg db schema st)) =
     (func_created st \<or> fst (create_emit_func_once cfg db schema st) = None)"
  by (simp add: create_emit_func_once_def create_emit_func_def execute_sql_def log_info_def
      split: option.splits sum.splits)

lemma once_first:
  "\<not> func_created st \<Longrightarrow>
   func_created (snd (create_emit_func_once cfg db schema st)) =
     (fst (create_emit_func cfg db schema st) = None)"
  by (simp add: create_emit_func_once_def create_emit_func_def execute_sql_def log_info_def
      split: option.splits sum.splits)

lemma once_noop:
  "func_created st \<Longrightarrow> create_emit_func_once cfg db schema st = (None, st)"
  by (simp add: create_emit_func_once_def)

lemma execute_sql_flag [simp]: "func_created (snd (execute_sql q db st)) = func_created st"
  by (simp add: execute_sql_def split: option.splits sum.splits)

lemma execute_sql_installs:
  "\<not> is_install q \<Longrightarrow> installs (snd (execute_sql q db st)) = installs st"
  by (simp add: execute_sql_def installs_def split: option.splits sum.splits)

lemma execute_sql_invocations:
  "\<not> is_install q \<Longrightarrow> invocations (snd (execute_sql q db st)) = invocations st"
  by (simp add: execute_sql_def invocations_def split: option.splits sum.splits)

lemma log_info_flag [simp]: "func_created (log_info cfg m st) = func_created st"
  by (simp add: log_info_def)

lemma log_info_installs [simp]: "installs (log_info cfg m st) = installs st"
  by (simp add: log_info_def installs_def)

lemma log_info_invocations [simp]: "invocations (log_info cfg m st) = invocations st"
  by (simp add: log_info_def invocations_def)

lemma unbind_flag [simp]: "func_created (snd (unbind_table cfg t db schema st)) = func_created st"
  by (simp add: unbind_table_def execute_sql_def split: option.splits sum.splits prod.splits)

lemma unbind_installs [simp]: "installs (snd (unbind_table cfg t db schema st)) = installs st"
  by (simp add: unbind_table_def execute_sql_def installs_def log_info_def
      split: option.splits sum.splits prod.splits)

lemma unbind_invocations [simp]:
  "invocations (snd (unbind_table cfg t db schema st)) = invocations st"
  by (simp add: unbind_table_def execute_sql_def invocations_def log_info_def
      split: option.splits sum.splits prod.splits)

lemma once_inv: "flag_inv st \<Longrightarrow> flag_inv (snd (create_emit_func_once cfg db schema st))"
  by (auto simp add: flag_inv_def create_emit_func_once_def create_emit_func_def execute_sql_def
      installs_def log_info_def split: option.splits sum.splits)

lemma unbind_inv: "flag_inv st \<Longrightarrow> flag_inv (snd (unbind_table cfg t db schema st))"
  by (simp add: flag_inv_def)

text \<open>The states in which \<^verbatim>\<open>bind_table\<close> can end: after the unbind, after the
  installation, after the trigger, after the log record.\<close>

lemma bind_table_reaches:
  "snd (bind_table cfg t events db schema st) \<in>
     {snd (unbind_table cfg t db schema st),
      snd (create_emit_func_once cfg db schema (snd (unbind_table cfg t db schema st))),
      snd (execute_sql (CREATE_TRIGGER (PREFIX cfg) schema t events) db
             (snd (create_emit_func_once cfg db schema (snd (unbind_table cfg t db schema st))))),
      log_info cfg (StartListen t (map kind_name events))
        (snd (execute_sql (CREATE_TRIGGER (PREFIX cfg) schema t events) db
             (snd (create_emit_func_once cfg db schema (snd (unbind_table cfg t db schema st))))))}"
proof -
  obtain r1 s1 where u: "unbind_table cfg t db schema st = (r1, s1)"
    by (cases "unbind_table cfg t db schema st")
  obtain r2 s2 where c: "create_emit_func_once cfg db schema s1 = (r2, s2)"
    by (cases "create_emit_func_once cfg db schema s1")
  obtain r3 s3 where e: "execute_sql (CREATE_TRIGGER (PREFIX cfg) schema t events) db s2 = (r3, s3)"
    by (cases "execute_sql (CREATE_TRIGGER (PREFIX cfg) schema t events) db s2")
  show ?thesis
    by (simp add: bind_table_def u c e split: option.splits)
qed

lemma bind_inv: "flag_inv st \<Longrightarrow> flag_inv (snd (bind_table cfg t events db schema st))"
proof -
  assume a: "flag_inv st"
  let ?st1 = "snd (unbind_table cfg t db schema st)"
  let ?st2 = "snd (create_emit_func_once cfg db schema ?st1)"
  let ?st3 = "snd (execute_sql (CREATE_TRIGGER (PREFIX cfg) schema t events) db ?st2)"
  have 1: "flag_inv ?st1" using a by (rule unbind_inv)
  have 2: "flag_inv ?st2" using 1 by (rule once_inv)
  have 3: "flag_inv ?st3"
    using 2 by (simp add: flag_inv_def execute_sql_installs)
  have 4: "flag_inv (log_info cfg (StartListen t (map kind_name events)) ?st3)"
    using 3 by (simp add: flag_inv_def)
  show ?thesis
    using bind_table_reaches [of cfg t events db schema st] 1 2 3 4 by auto
qed

lemma bind_keeps:
  assumes "func_created st"
  shows "func_created (snd (bind_table cfg t events db schema st))
       \<and> invocations (snd (bind_table cfg t events db schema st)) = invocations st"
proof -
  let ?P = "\<lambda>s. func_created s \<and> invocations s = invocations st"
  let ?st1 = "snd (unbind_table cfg t db schema st)"
  let ?st2 = "snd (create_emit_func_once cfg db schema ?st1)"
  let ?st3 = "snd (execute_sql (CREATE_TRIGGER (PREFIX cfg) schema t events) db ?st2)"
  have 1: "?P ?st1" using assms by simp
  have 2: "?P ?st2" using 1 by (simp add: once_noop)
  have 3: "?P ?st3" using 2 by (simp add: execute_sql_invocations)
  have 4: "?P (log_info cfg (StartListen t (map kind_name events)) ?st3)"
    using 3 by simp
  show ?thesis
    using bind_table_reaches [of cfg t events db schema st] 1 2 3 4 by auto
qed

lemma run_call_inv: "flag_inv st \<Longrightarrow> flag_inv (snd (run_call cfg c st))"
  by (cases c) (simp_all add: bind_inv unbind_inv once_inv)

lemma run_call_keeps:
  "func_created st \<Longrightarrow>
   func_created (snd (run_call cfg c st)) \<and> invocations (snd (run_call cfg c st)) = invocations st"
  by (cases c) (simp_all add: bind_keeps once_noop)

lemma run_calls_inv: "flag_inv st \<Longrightarrow> flag_inv (run_calls cfg cs st)"
  by (induction cs arbitrary: st) (simp_all add: run_call_inv)

lemma run_calls_keeps:
  "func_created st \<Longrightarrow>
   func_created (run_calls cfg cs st) \<and> invocations (run_calls cfg cs st) = invocations st"
proof (induction cs arbitrary: st)
  case Nil
  then show ?case by simp
next
  case (Cons c cs)
  have step: "func_created (snd (run_call cfg c st))"
    "invocations (snd (run_call cfg c st)) = invocations st"
    using run_call_keeps [OF Cons.prems] by simp_all
  show ?case
    using Cons.IH [OF step(1)] step(2) by simp
qed

lemma initial_inv: "flag_inv (initial_process conns)"
  by (simp add: flag_inv_def initial_process_def installs_def)

text \<open>
  C8 as stated fails: two calls of \<^verbatim>\<open>bind_table\<close> for a schema the database does not
  have. Each reaches \<^verbatim>\<open>create_emit_func_once\<close>, each time the flag is false and
  \<^verbatim>\<open>create_emit_func\<close> is called and raises: two invocations in one process.
\<close>

theorem failed_installation_is_invoked_again:
  "invocations (run_calls cfg0
      [Bind ''book'' ALL_EVENTS ''default'' ''nosuch'',
       Bind ''book'' ALL_EVENTS ''default'' ''nosuch''] st0) = 2
   \<and> \<not> func_created (run_calls cfg0
      [Bind ''book'' ALL_EVENTS ''default'' ''nosuch'',
       Bind ''book'' ALL_EVENTS ''default'' ''nosuch''] st0)"
  by (simp add: binding_defs)

text \<open>
  C8, amended. The flag starts false. A call of \<^verbatim>\<open>create_emit_func_once\<close> that finds it
  false leaves it true exactly when \<^verbatim>\<open>create_emit_func\<close> returns (when it raises, the flag
  stays false and the next call invokes it again); a call that finds it true does
  nothing. No sequence of \<^verbatim>\<open>bind_table\<close>, \<^verbatim>\<open>unbind_table\<close> and
  \<^verbatim>\<open>create_emit_func_once\<close> calls resets the flag, and once it is true none of them
  invokes \<^verbatim>\<open>create_emit_func\<close> again. So in such a sequence run from the start of the
  process at most one invocation of \<^verbatim>\<open>create_emit_func\<close> succeeds.
\<close>

theorem func_created_lifecycle:
  "\<not> func_created (initial_process conns)
   \<and> (\<not> func_created st \<longrightarrow>
        func_created (snd (create_emit_func_once cfg db schema st)) =
          (fst (create_emit_func cfg db schema st) = None))
   \<and> (func_created st \<longrightarrow> create_emit_func_once cfg db schema st = (None, st))
   \<and> (func_created st \<longrightarrow>
        func_created (run_calls cfg cs st)
        \<and> invocations (run_calls cfg cs st) = invocations st)
   \<and> installs (run_calls cfg cs (initial_process conns)) \<le> 1"
proof -
  have "flag_inv (run_calls cfg cs (initial_process conns))"
    by (rule run_calls_inv [OF initial_inv])
  then have "installs (run_calls cfg cs (initial_process conns)) \<le> 1"
    by (simp add: flag_inv_def)
  then show ?thesis
    using once_first [of st cfg db schema] once_noop [of st cfg db schema]
      run_calls_keeps [of st cfg cs]
    by (simp add: initial_process_def)
qed

theorem func_created_lifecycle_witness:
  "\<not> func_created st0
   \<and> fst (create_emit_func cfg0 ''default'' ''public'' st0) = None
   \<and> func_created (snd (create_emit_func_once cfg0 ''default'' ''public'' st0))
   \<and> func_created (run_calls cfg0 [Bind ''book'' ALL_EVENTS ''default'' ''public'']
        (snd (create_emit_func_once cfg0 ''default'' ''public'' st0)))
   \<and> invocations (run_calls cfg0 [Bind ''book'' ALL_EVENTS ''default'' ''public'']
        (snd (create_emit_func_once cfg0 ''default'' ''public'' st0))) = 1
   \<and> installs (run_calls cfg0 [Once ''default'' ''public'', Bind ''book'' ALL_EVENTS ''default'' ''public'']
        (initial_process [''default'' \<mapsto> db0])) \<le> 1"
proof -
  have a: "\<not> func_created st0"
    by (simp add: st0_def initial_process_def)
  have b: "fst (create_emit_func cfg0 ''default'' ''public'' st0) = None"
    by (simp add: binding_defs)
  have c: "invocations (snd (create_emit_func_once cfg0 ''default'' ''public'' st0)) = 1"
    by (simp add: binding_defs)
  note l1 = func_created_lifecycle [of "[''default'' \<mapsto> db0]" st0 cfg0 "''default''" "''public''"
      "[Once ''default'' ''public'', Bind ''book'' ALL_EVENTS ''default'' ''public'']"]
  have d: "func_created (snd (create_emit_func_once cfg0 ''default'' ''public'' st0))"
    using l1 a b by simp
  note l2 = func_created_lifecycle [of "[''default'' \<mapsto> db0]"
      "snd (create_emit_func_once cfg0 ''default'' ''public'' st0)" cfg0 "''default''" "''public''"
      "[Bind ''book'' ALL_EVENTS ''default'' ''public'']"]
  show ?thesis
    using a b c d l1 l2 by simp
qed

section \<open>The model wrappers\<close>

text \<open>
  C10. \<^verbatim>\<open>bind_model(model, events, db, schema)\<close> and \<^verbatim>\<open>unbind_model(model, db, schema)\<close>
  ignore \<^verbatim>\<open>db\<close> and \<^verbatim>\<open>schema\<close>: they pass on the model's table name (and the events)
  only, so the work is done on the default database and the default schema, whatever
  the two arguments are.
\<close>

theorem model_wrappers_ignore_db_and_schema:
  "bind_model cfg m events db schema st =
     bind_table cfg (db_table m) events (DEFAULT_DATABASE cfg) (DEFAULT_SCHEMA cfg) st
   \<and> unbind_model cfg m db schema st =
     unbind_table cfg (db_table m) (DEFAULT_DATABASE cfg) (DEFAULT_SCHEMA cfg) st
   \<and> bind_model cfg m events db schema st = bind_model cfg m events db' schema' st
   \<and> unbind_model cfg m db schema st = unbind_model cfg m db' schema' st"
  by (simp add: bind_model_def unbind_model_def)

end
